theory Spec2Isabelle
  imports Complex_Main
begin

section \<open>Numbers, exceptions and dictionaries\<close>

text \<open>
  The program is src/app.py, a Python script. Its numbers are Python floats and ints; the
  ints (rpm, the number of cylinders, the calorific value) are coerced to float by the
  first mixed operation and \<open>/\<close> is true division, so every quantity is embedded as a
  \<^typ>\<open>real\<close>, without rounding, overflow or NaN. The one computation whose claim
  rounding decides, the swept volume, is embedded a second time in binary64 further down.

  A Python exception is embedded by the name of its class. Float division raises
  \<open>ZeroDivisionError\<close> on a zero divisor; it never yields an infinity.
\<close>

datatype error = PyError string

definition ZeroDivisionError :: error where
  "ZeroDivisionError = PyError ''ZeroDivisionError''"

definition truediv :: "real \<Rightarrow> real \<Rightarrow> error + real" where
  "truediv a b = (if b = 0 then Inl ZeroDivisionError else Inr (a / b))"

section \<open>calculate_engine_performance (src/app.py, lines 108-177)\<close>

text \<open>
  The local variables of the function, in the order of their assignment. Each is a
  definition of its own, under the name the source gives it, over the parameters it
  depends on.
\<close>

definition bore_m :: "real \<Rightarrow> real" where
  "bore_m bore = bore / 1000"

definition stroke_m :: "real \<Rightarrow> real" where
  "stroke_m stroke = stroke / 1000"

definition swept_volume_per_cylinder :: "real \<Rightarrow> real \<Rightarrow> real" where
  "swept_volume_per_cylinder bore stroke = (pi / 4) * (bore_m bore)\<^sup>2 * stroke_m stroke"

definition total_swept_volume :: "real \<Rightarrow> real \<Rightarrow> real \<Rightarrow> real" where
  "total_swept_volume bore stroke num_cylinders =
     swept_volume_per_cylinder bore stroke * num_cylinders * 1000000"

definition brake_power :: "real \<Rightarrow> real \<Rightarrow> real" where
  "brake_power rpm torque = (2 * pi * rpm * torque) / (60 * 1000)"

definition imep_pa :: "real \<Rightarrow> real" where
  "imep_pa imep = imep * 100000"

definition piston_area :: "real \<Rightarrow> real" where
  "piston_area bore = (pi / 4) * (bore_m bore)\<^sup>2"

definition n_strokes :: "string \<Rightarrow> real \<Rightarrow> real" where
  "n_strokes engine_type rpm = (if engine_type = ''2-Stroke'' then rpm else rpm / 2)"

definition indicated_power :: "real \<Rightarrow> real \<Rightarrow> real \<Rightarrow> string \<Rightarrow> real \<Rightarrow> real \<Rightarrow> real" where
  "indicated_power bore stroke num_cylinders engine_type rpm imep =
     (imep_pa imep * stroke_m stroke * piston_area bore * n_strokes engine_type rpm * num_cylinders)
       / 60 / 1000"

definition friction_power ::
  "real \<Rightarrow> real \<Rightarrow> real \<Rightarrow> string \<Rightarrow> real \<Rightarrow> real \<Rightarrow> real \<Rightarrow> real" where
  "friction_power bore stroke num_cylinders engine_type rpm imep torque =
     indicated_power bore stroke num_cylinders engine_type rpm imep - brake_power rpm torque"

definition fuel_power :: "real \<Rightarrow> real \<Rightarrow> real" where
  "fuel_power fuel_consumption calorific_value = (fuel_consumption / 3600) * calorific_value"

text \<open>
  The function itself. The five divisions by a computed quantity are taken in the order
  of the source, and the first zero divisor ends the call with its exception. The result
  is the dictionary of the \<open>return\<close> statement, a map from its eleven keys.
\<close>

definition calculate_engine_performance ::
  "real \<Rightarrow> real \<Rightarrow> real \<Rightarrow> string \<Rightarrow> real \<Rightarrow> real \<Rightarrow> real \<Rightarrow> real \<Rightarrow> real \<Rightarrow> real
     \<Rightarrow> error + (string \<rightharpoonup> real)" where
  "calculate_engine_performance bore stroke num_cylinders engine_type compression_ratio rpm
       imep torque calorific_value fuel_consumption =
     (let bp = brake_power rpm torque;
          ip = indicated_power bore stroke num_cylinders engine_type rpm imep;
          fr = friction_power bore stroke num_cylinders engine_type rpm imep torque
      in case truediv bp ip of Inl e \<Rightarrow> Inl e | Inr q1 \<Rightarrow>
         let mechanical_efficiency = q1 * 100;
             fp = fuel_power fuel_consumption calorific_value
         in case truediv bp fp of Inl e \<Rightarrow> Inl e | Inr q2 \<Rightarrow>
            let brake_thermal_efficiency = q2 * 100
            in case truediv ip fp of Inl e \<Rightarrow> Inl e | Inr q3 \<Rightarrow>
               let indicated_thermal_efficiency = q3 * 100
               in case truediv (fuel_consumption * 1000) bp of Inl e \<Rightarrow> Inl e | Inr bsfc \<Rightarrow>
                  case truediv (fuel_consumption * 1000) ip of Inl e \<Rightarrow> Inl e | Inr isfc \<Rightarrow>
                    Inr [''swept_volume'' \<mapsto> total_swept_volume bore stroke num_cylinders,
                         ''indicated_power'' \<mapsto> ip,
                         ''brake_power'' \<mapsto> bp,
                         ''friction_power'' \<mapsto> fr,
                         ''mechanical_efficiency'' \<mapsto> mechanical_efficiency,
                         ''brake_thermal_efficiency'' \<mapsto> brake_thermal_efficiency,
                         ''indicated_thermal_efficiency'' \<mapsto> indicated_thermal_efficiency,
                         ''bsfc'' \<mapsto> bsfc,
                         ''isfc'' \<mapsto> isfc,
                         ''torque'' \<mapsto> torque,
                         ''imep'' \<mapsto> imep])"

section \<open>The chart data (src/app.py, lines 267-280 and 321-343)\<close>

text \<open>
  \<open>np.linspace(start, stop, num)\<close> is a call into the numpy library: \<open>num\<close> samples,
  evenly spaced over the closed interval from \<open>start\<close> to \<open>stop\<close>, the sample of index
  \<open>i\<close> being \<open>start + i * ((stop - start) / (num - 1))\<close>.
\<close>

definition linspace :: "real \<Rightarrow> real \<Rightarrow> nat \<Rightarrow> real list" where
  "linspace start stop num =
     map (\<lambda>i. start + real i * ((stop - start) / real (num - 1))) [0..<num]"

definition cr_range :: "real list" where
  "cr_range = linspace 6 20 50"

definition gamma :: "string \<Rightarrow> real" where
  "gamma fuel_type = (if fuel_type = ''Petrol'' then 1.4 else 1.35)"

text \<open>
  The arithmetic on numpy arrays is elementwise, hence a \<^const>\<open>map\<close>; \<open>**\<close> with a float
  exponent on the positive samples is \<^const>\<open>powr\<close>.
\<close>

definition theoretical_efficiency :: "string \<Rightarrow> real list" where
  "theoretical_efficiency fuel_type =
     (if fuel_type = ''Petrol''
      then map (\<lambda>r. (1 - (1 / (r powr (gamma fuel_type - 1)))) * 100) cr_range
      else map (\<lambda>r. (1 - (1 / (r powr (gamma fuel_type - 1)))) * 100 * 0.9) cr_range)"

definition practical_efficiency :: "string \<Rightarrow> real list" where
  "practical_efficiency fuel_type = map (\<lambda>e. e * 0.6) (theoretical_efficiency fuel_type)"

definition rpm_range :: "real list" where
  "rpm_range = linspace 1000 6000 50"

definition peak_rpm :: real where
  "peak_rpm = 3000"

text \<open>
  The body of the loop over \<open>rpm_range\<close>: the value \<open>t\<close> it appends for the sample \<open>r\<close>.
  The loop itself starts from the empty list and appends one value per sample.
\<close>

definition torque_sample :: "real \<Rightarrow> real \<Rightarrow> real" where
  "torque_sample max_torque r =
     (if r \<le> peak_rpm then max_torque * (r / peak_rpm)
      else (let decay_factor = exp (- 0.0005 * (r - peak_rpm)) in max_torque * decay_factor))"

fun torque_loop :: "real \<Rightarrow> real list \<Rightarrow> real list \<Rightarrow> real list" where
  "torque_loop max_torque [] acc = acc"
| "torque_loop max_torque (r # rs) acc =
     torque_loop max_torque rs (acc @ [torque_sample max_torque r])"

definition torque_curve :: "real \<Rightarrow> real list" where
  "torque_curve max_torque = torque_loop max_torque rpm_range []"

definition power_curve :: "real \<Rightarrow> real list" where
  "power_curve max_torque =
     map2 (\<lambda>r t. (2 * pi * r * t) / 60000) rpm_range (torque_curve max_torque)"

section \<open>The swept volume in binary64 (src/app.py, lines 114-121)\<close>








section \<open>Properties of calculate_engine_performance\<close>

lemma truediv_Inr_iff: "truediv a b = Inr q \<longleftrightarrow> b \<noteq> 0 \<and> q = a / b"
  by (auto simp: truediv_def)

text \<open>
  The call raises exactly when one of its three computed divisors is zero, and otherwise
  returns the dictionary below.
\<close>

lemma calc_cases:
  "calculate_engine_performance bore stroke num_cylinders engine_type compression_ratio rpm
       imep torque calorific_value fuel_consumption =
   (if indicated_power bore stroke num_cylinders engine_type rpm imep = 0
       \<or> brake_power rpm torque = 0
       \<or> fuel_power fuel_consumption calorific_value = 0
    then Inl ZeroDivisionError
    else Inr [''swept_volume'' \<mapsto> total_swept_volume bore stroke num_cylinders,
              ''indicated_power'' \<mapsto> indicated_power bore stroke num_cylinders engine_type rpm imep,
              ''brake_power'' \<mapsto> brake_power rpm torque,
              ''friction_power'' \<mapsto>
                 friction_power bore stroke num_cylinders engine_type rpm imep torque,
              ''mechanical_efficiency'' \<mapsto>
                 brake_power rpm torque
                   / indicated_power bore stroke num_cylinders engine_type rpm imep * 100,
              ''brake_thermal_efficiency'' \<mapsto>
                 brake_power rpm torque / fuel_power fuel_consumption calorific_value * 100,
              ''indicated_thermal_efficiency'' \<mapsto>
                 indicated_power bore stroke num_cylinders engine_type rpm imep
                   / fuel_power fuel_consumption calorific_value * 100,
              ''bsfc'' \<mapsto> fuel_consumption * 1000 / brake_power rpm torque,
              ''isfc'' \<mapsto> fuel_consumption * 1000
                   / indicated_power bore stroke num_cylinders engine_type rpm imep,
              ''torque'' \<mapsto> torque,
              ''imep'' \<mapsto> imep])"
  unfolding calculate_engine_performance_def Let_def truediv_def
  by (simp split: sum.splits)

lemma indicated_power_unfold:
  "indicated_power bore stroke num_cylinders engine_type rpm imep =
     (imep * 100000) * (stroke / 1000) * ((pi / 4) * (bore / 1000)\<^sup>2)
       * (if engine_type = ''2-Stroke'' then rpm else rpm / 2) * num_cylinders / 60 / 1000"
  by (simp add: indicated_power_def imep_pa_def stroke_m_def piston_area_def bore_m_def
      n_strokes_def)

lemma indicated_power_default: "indicated_power 80 90 4 ''4-Stroke'' 3000 8 = 288 / 25 * pi"
  by (simp add: indicated_power_unfold power2_eq_square)

lemma brake_power_default: "brake_power 3000 150 = 15 * pi"
  by (simp add: brake_power_def)

lemma fuel_power_default: "fuel_power 5 44000 = 550 / 9"
  by (simp add: fuel_power_def)

lemma calc_default_returns:
  "\<not> isl (calculate_engine_performance 80 90 4 ''4-Stroke'' (19/2) 3000 8 150 44000 5)"
  by (simp add: calc_cases indicated_power_default brake_power_default fuel_power_default)

lemma Inr_projr: "\<not> isl x \<Longrightarrow> x = Inr (projr x)"
  by (cases x) simp_all

subsection \<open>Bounds on \<open>pi\<close>\<close>

text \<open>
  The worked example of the brake power needs \<open>pi\<close> to three decimal places. Both bounds
  come from the sign of the sine next to \<open>pi\<close>, read off its Maclaurin polynomial.
\<close>

lemma sum_lessThan_numeral:
  "(\<Sum>m<numeral k. f m) = (\<Sum>m<pred_numeral k. f m) + (f (pred_numeral k) :: real)"
  by (simp add: numeral_eq_Suc)

lemma sin_poly_15:
  "(\<Sum>m<15. sin_coeff m * (x::real) ^ m) =
     x - x^3/6 + x^5/120 - x^7/5040 + x^9/362880 - x^11/39916800 + x^13/6227020800"
  by (simp add: sum_lessThan_numeral sin_coeff_def fact_numeral)

lemma sin_poly_17:
  "(\<Sum>m<17. sin_coeff m * (x::real) ^ m) =
     x - x^3/6 + x^5/120 - x^7/5040 + x^9/362880 - x^11/39916800 + x^13/6227020800
       - x^15/1307674368000"
  by (simp add: sum_lessThan_numeral sin_coeff_def fact_numeral)

lemma pi_upper: "pi \<le> 3.1416"
proof -
  let ?x = "3927 / 1250 :: real"
  have "\<bar>sin ?x - (\<Sum>m<17. sin_coeff m * ?x ^ m)\<bar> \<le> inverse (fact 17) * \<bar>?x\<bar> ^ 17"
    by (rule Maclaurin_sin_bound)
  moreover have
    "?x - ?x^3/6 + ?x^5/120 - ?x^7/5040 + ?x^9/362880 - ?x^11/39916800
       + ?x^13/6227020800 - ?x^15/1307674368000 + inverse (fact 17) * \<bar>?x\<bar> ^ 17 < 0"
    by (simp add: fact_numeral power_divide)
  ultimately have "sin ?x < 0"
    unfolding sin_poly_17 by linarith
  then have "\<not> ?x < pi"
    using sin_gt_zero [of ?x] by force
  then show ?thesis
    by simp
qed

lemma pi_lower: "3.141 < pi"
proof -
  let ?x = "3141 / 1000 :: real"
  have "\<bar>sin ?x - (\<Sum>m<15. sin_coeff m * ?x ^ m)\<bar> \<le> inverse (fact 15) * \<bar>?x\<bar> ^ 15"
    by (rule Maclaurin_sin_bound)
  moreover have
    "0 < ?x - ?x^3/6 + ?x^5/120 - ?x^7/5040 + ?x^9/362880 - ?x^11/39916800
       + ?x^13/6227020800 - inverse (fact 15) * \<bar>?x\<bar> ^ 15"
    by (simp add: fact_numeral power_divide)
  ultimately have "0 < sin ?x"
    unfolding sin_poly_15 by linarith
  moreover have "?x < 2 * pi"
    using pi_ge_two by linarith
  ultimately have "\<not> pi \<le> ?x"
    using sin_le_zero [of ?x] by force
  then show ?thesis
    by simp
qed

subsection \<open>The claims about the calculation\<close>

text \<open>
  C10. Two calls that differ only in compression_ratio return the same value: the
  parameter is not read by the function.
\<close>

theorem compression_ratio_unused:
  "calculate_engine_performance bore stroke num_cylinders engine_type cr1 rpm
       imep torque calorific_value fuel_consumption
   = calculate_engine_performance bore stroke num_cylinders engine_type cr2 rpm
       imep torque calorific_value fuel_consumption"
  by (simp add: calculate_engine_performance_def)

text \<open>
  C1. The indicated power the function computes is
  \<open>(imep * 1e5) * (stroke / 1000) * ((pi / 4) * (bore / 1000)\<^sup>2) * n * cylinder_count / 60 / 1000\<close>
  with \<open>n = rpm\<close> for the engine type \<open>2-Stroke\<close> and \<open>n = rpm / 2\<close> for any other, and a
  call that returns stores that value under the key \<open>indicated_power\<close>. The equation holds
  for every input, so in particular for \<open>imep > 0\<close>, \<open>bore > 0\<close>, \<open>stroke > 0\<close>,
  \<open>cylinder_count \<ge> 1\<close> and \<open>rpm \<ge> 0\<close>; the test on the engine type is the one conditional
  of the computation.
\<close>

theorem indicated_power_formula:
  "indicated_power bore stroke cylinder_count engine_type rpm imep =
     (imep * 100000) * (stroke / 1000) * ((pi / 4) * (bore / 1000)\<^sup>2)
       * (if engine_type = ''2-Stroke'' then rpm else rpm / 2) * cylinder_count / 60 / 1000
   \<and> (calculate_engine_performance bore stroke cylinder_count engine_type compression_ratio rpm
          imep torque calorific_value fuel_consumption = Inr res
        \<longrightarrow> res ''indicated_power'' =
              Some ((imep * 100000) * (stroke / 1000) * ((pi / 4) * (bore / 1000)\<^sup>2)
                * (if engine_type = ''2-Stroke'' then rpm else rpm / 2) * cylinder_count
                / 60 / 1000))"
proof
  show "indicated_power bore stroke cylinder_count engine_type rpm imep =
     (imep * 100000) * (stroke / 1000) * ((pi / 4) * (bore / 1000)\<^sup>2)
       * (if engine_type = ''2-Stroke'' then rpm else rpm / 2) * cylinder_count / 60 / 1000"
    by (rule indicated_power_unfold)
next
  show "calculate_engine_performance bore stroke cylinder_count engine_type compression_ratio rpm
          imep torque calorific_value fuel_consumption = Inr res
        \<longrightarrow> res ''indicated_power'' =
              Some ((imep * 100000) * (stroke / 1000) * ((pi / 4) * (bore / 1000)\<^sup>2)
                * (if engine_type = ''2-Stroke'' then rpm else rpm / 2) * cylinder_count
                / 60 / 1000)"
    unfolding calc_cases indicated_power_unfold [symmetric]
    by (auto split: if_splits)
qed

theorem indicated_power_formula_witness:
  "\<not> isl (calculate_engine_performance 80 90 4 ''4-Stroke'' (19/2) 3000 8 150 44000 5)
   \<and> projr (calculate_engine_performance 80 90 4 ''4-Stroke'' (19/2) 3000 8 150 44000 5)
       ''indicated_power'' = Some (288 / 25 * pi)"
proof -
  let ?c = "calculate_engine_performance 80 90 4 ''4-Stroke'' (19/2) 3000 8 150 44000 5"
  have r: "?c = Inr (projr ?c)"
    by (rule Inr_projr [OF calc_default_returns])
  have "projr ?c ''indicated_power'' = Some (288 / 25 * pi)"
    using indicated_power_formula
      [of 80 90 4 "''4-Stroke''" 3000 8 "19/2" 150 44000 5 "projr ?c"] r
    by (simp add: power2_eq_square)
  with calc_default_returns show ?thesis by simp
qed

text \<open>
  C2. The brake power is \<open>(2 * pi * rpm * torque) / 60000\<close> for all rpm and torque (so for
  the positive ones), a call that returns stores it under the key \<open>brake_power\<close>, and at
  \<open>rpm = 3000\<close>, \<open>torque = 150\<close> it is \<open>47.12\<close> to two decimal places.
\<close>

theorem brake_power_formula:
  "brake_power rpm torque = (2 * pi * rpm * torque) / 60000
   \<and> (calculate_engine_performance bore stroke cylinder_count engine_type compression_ratio rpm
          imep torque calorific_value fuel_consumption = Inr res
        \<longrightarrow> res ''brake_power'' = Some ((2 * pi * rpm * torque) / 60000))
   \<and> \<bar>brake_power 3000 150 - 47.12\<bar> < 0.005"
proof (intro conjI)
  show f: "brake_power rpm torque = (2 * pi * rpm * torque) / 60000"
    by (simp add: brake_power_def)
  show "calculate_engine_performance bore stroke cylinder_count engine_type compression_ratio rpm
          imep torque calorific_value fuel_consumption = Inr res
        \<longrightarrow> res ''brake_power'' = Some ((2 * pi * rpm * torque) / 60000)"
    unfolding calc_cases f [symmetric]
    by (auto split: if_splits)
  show "\<bar>brake_power 3000 150 - 47.12\<bar> < 0.005"
  proof -
    have "9423 / 200 < 15 * pi"
      using pi_lower by simp
    moreover have "15 * pi < 377 / 8"
      using pi_upper by simp
    ultimately show ?thesis
      unfolding brake_power_default abs_less_iff by simp
  qed
qed

theorem brake_power_formula_witness:
  "\<not> isl (calculate_engine_performance 80 90 4 ''4-Stroke'' (19/2) 3000 8 150 44000 5)
   \<and> projr (calculate_engine_performance 80 90 4 ''4-Stroke'' (19/2) 3000 8 150 44000 5)
       ''brake_power'' = Some (15 * pi)"
proof -
  let ?c = "calculate_engine_performance 80 90 4 ''4-Stroke'' (19/2) 3000 8 150 44000 5"
  have r: "?c = Inr (projr ?c)"
    by (rule Inr_projr [OF calc_default_returns])
  have "projr ?c ''brake_power'' = Some (15 * pi)"
    using brake_power_formula
      [of 3000 150 80 90 4 "''4-Stroke''" "19/2" 8 44000 5 "projr ?c"] r
    by simp
  with calc_default_returns show ?thesis by simp
qed

text \<open>
  C3. In every returned dictionary the value under \<open>friction_power\<close> is the value under
  \<open>indicated_power\<close> minus the value under \<open>brake_power\<close>; nothing clamps it.
\<close>

theorem friction_power_identity:
  assumes "calculate_engine_performance bore stroke cylinder_count engine_type
             compression_ratio rpm imep torque calorific_value fuel_consumption = Inr res"
  shows "\<exists>ip bp fr. res ''indicated_power'' = Some ip \<and> res ''brake_power'' = Some bp
           \<and> res ''friction_power'' = Some fr \<and> fr = ip - bp"
  using assms unfolding calc_cases
  by (auto simp: friction_power_def split: if_splits)

theorem friction_power_identity_witness:
  "\<not> isl (calculate_engine_performance 80 90 4 ''4-Stroke'' (19/2) 3000 8 150 44000 5)
   \<and> projr (calculate_engine_performance 80 90 4 ''4-Stroke'' (19/2) 3000 8 150 44000 5)
       ''friction_power'' = Some (288 / 25 * pi - 15 * pi)"
proof -
  let ?c = "calculate_engine_performance 80 90 4 ''4-Stroke'' (19/2) 3000 8 150 44000 5"
  have r: "?c = Inr (projr ?c)"
    by (rule Inr_projr [OF calc_default_returns])
  from friction_power_identity [OF r]
  obtain ip bp fr where f: "projr ?c ''indicated_power'' = Some ip"
      "projr ?c ''brake_power'' = Some bp" "projr ?c ''friction_power'' = Some fr"
      "fr = ip - bp"
    by blast
  have "projr ?c ''indicated_power'' = Some (288 / 25 * pi)"
       "projr ?c ''brake_power'' = Some (15 * pi)"
    by (simp_all add: calc_cases indicated_power_default brake_power_default
        fuel_power_default)
  with f have "fr = 288 / 25 * pi - 15 * pi" by simp
  with f calc_default_returns show ?thesis by simp
qed

text \<open>
  C4, as stated, asks for an exception of the kind \<open>InvalidDenominator\<close>. The code defines
  no exception of its own: with \<open>torque = 0\<close> and every other input at its default, the
  brake power is zero and the division for \<open>bsfc\<close> raises Python's \<open>ZeroDivisionError\<close>.
\<close>

theorem zero_torque_raises_ZeroDivisionError:
  "calculate_engine_performance 80 90 4 ''4-Stroke'' (19/2) 3000 8 0 44000 5
     = Inl (PyError ''ZeroDivisionError'')
   \<and> calculate_engine_performance 80 90 4 ''4-Stroke'' (19/2) 3000 8 0 44000 5
     \<noteq> Inl (PyError ''InvalidDenominator'')"
  by (simp add: calc_cases brake_power_def ZeroDivisionError_def)

text \<open>
  C4, amended. Whenever the indicated power, the brake power or the fuel power is zero, the
  call raises \<open>ZeroDivisionError\<close>; it does not return, so no infinity reaches the caller.
\<close>

theorem zero_denominator_raises:
  assumes "indicated_power bore stroke cylinder_count engine_type rpm imep = 0
           \<or> brake_power rpm torque = 0
           \<or> fuel_power fuel_consumption calorific_value = 0"
  shows "calculate_engine_performance bore stroke cylinder_count engine_type
           compression_ratio rpm imep torque calorific_value fuel_consumption
         = Inl (PyError ''ZeroDivisionError'')"
  using assms by (simp add: calc_cases ZeroDivisionError_def)

theorem zero_denominator_raises_witness:
  "fuel_power 0 44000 = 0
   \<and> calculate_engine_performance 80 90 4 ''4-Stroke'' (19/2) 3000 8 150 44000 0
       = Inl (PyError ''ZeroDivisionError'')"
proof -
  have z: "fuel_power 0 44000 = 0"
    by (simp add: fuel_power_def)
  then have "indicated_power 80 90 4 ''4-Stroke'' 3000 8 = 0
           \<or> brake_power 3000 150 = 0
           \<or> fuel_power 0 44000 = 0"
    by simp
  from zero_denominator_raises [OF this] z show ?thesis
    by simp
qed

text \<open>
  C5. The claim is that every input inside the ranges of the input widgets keeps the three
  divisors strictly positive. The RPM widget has \<open>min_value=0\<close>, alone among the inputs
  that feed a divisor, and at \<open>rpm = 0\<close> with every other input at its default the
  indicated power and the brake power are both zero and the call raises.
\<close>

theorem rpm_zero_in_range_raises:
  "indicated_power 80 90 4 ''4-Stroke'' 0 8 = 0
   \<and> brake_power 0 150 = 0
   \<and> calculate_engine_performance 80 90 4 ''4-Stroke'' (19/2) 0 8 150 44000 5
       = Inl ZeroDivisionError"
  by (simp add: calc_cases brake_power_def indicated_power_unfold)

text \<open>
  With \<open>rpm > 0\<close> and the other inputs positive, as all their widget ranges are, the three
  divisors are strictly positive.
\<close>

lemma denominators_positive:
  assumes "0 < bore" "0 < stroke" "0 < num_cylinders" "0 < rpm" "0 < imep" "0 < torque"
    "0 < calorific_value" "0 < fuel_consumption"
  shows "0 < indicated_power bore stroke num_cylinders engine_type rpm imep"
    and "0 < brake_power rpm torque"
    and "0 < fuel_power fuel_consumption calorific_value"
  using assms by (simp_all add: indicated_power_unfold brake_power_def fuel_power_def)

text \<open>
  C6. With all other parameters equal, the indicated power for the engine type \<open>2-Stroke\<close>
  is twice that for \<open>4-Stroke\<close>, as a computed value and in the returned dictionaries.
\<close>

theorem two_stroke_doubles_indicated_power:
  "indicated_power bore stroke cylinder_count ''2-Stroke'' rpm imep
     = 2 * indicated_power bore stroke cylinder_count ''4-Stroke'' rpm imep
   \<and> (calculate_engine_performance bore stroke cylinder_count ''2-Stroke'' compression_ratio
          rpm imep torque calorific_value fuel_consumption = Inr res2
        \<and> calculate_engine_performance bore stroke cylinder_count ''4-Stroke'' compression_ratio
          rpm imep torque calorific_value fuel_consumption = Inr res4
        \<longrightarrow> (\<exists>p2 p4. res2 ''indicated_power'' = Some p2 \<and> res4 ''indicated_power'' = Some p4
               \<and> p2 = 2 * p4))"
proof
  show d: "indicated_power bore stroke cylinder_count ''2-Stroke'' rpm imep
     = 2 * indicated_power bore stroke cylinder_count ''4-Stroke'' rpm imep"
    by (simp add: indicated_power_unfold)
  show "calculate_engine_performance bore stroke cylinder_count ''2-Stroke'' compression_ratio
          rpm imep torque calorific_value fuel_consumption = Inr res2
        \<and> calculate_engine_performance bore stroke cylinder_count ''4-Stroke'' compression_ratio
          rpm imep torque calorific_value fuel_consumption = Inr res4
        \<longrightarrow> (\<exists>p2 p4. res2 ''indicated_power'' = Some p2 \<and> res4 ''indicated_power'' = Some p4
               \<and> p2 = 2 * p4)"
    unfolding calc_cases using d by (auto split: if_splits)
qed

lemma indicated_power_two_stroke_default:
  "indicated_power 80 90 4 ''2-Stroke'' 3000 8 = 576 / 25 * pi"
  by (simp add: indicated_power_unfold power2_eq_square)

lemma calc_two_stroke_default_returns:
  "\<not> isl (calculate_engine_performance 80 90 4 ''2-Stroke'' (19/2) 3000 8 150 44000 5)"
  by (simp add: calc_cases indicated_power_two_stroke_default brake_power_default
      fuel_power_default)

theorem two_stroke_doubles_indicated_power_witness:
  "\<not> isl (calculate_engine_performance 80 90 4 ''2-Stroke'' (19/2) 3000 8 150 44000 5)
   \<and> \<not> isl (calculate_engine_performance 80 90 4 ''4-Stroke'' (19/2) 3000 8 150 44000 5)
   \<and> projr (calculate_engine_performance 80 90 4 ''2-Stroke'' (19/2) 3000 8 150 44000 5)
        ''indicated_power''
      = Some (2 * (288 / 25 * pi))"
proof -
  let ?c2 = "calculate_engine_performance 80 90 4 ''2-Stroke'' (19/2) 3000 8 150 44000 5"
  let ?c4 = "calculate_engine_performance 80 90 4 ''4-Stroke'' (19/2) 3000 8 150 44000 5"
  have r2: "?c2 = Inr (projr ?c2)"
    by (rule Inr_projr [OF calc_two_stroke_default_returns])
  have r4: "?c4 = Inr (projr ?c4)"
    by (rule Inr_projr [OF calc_default_returns])
  from two_stroke_doubles_indicated_power
    [of 80 90 4 3000 8 "19/2" 150 44000 5 "projr ?c2" "projr ?c4"] r2 r4
  obtain p2 p4 where p: "projr ?c2 ''indicated_power'' = Some p2"
      "projr ?c4 ''indicated_power'' = Some p4" "p2 = 2 * p4"
    by blast
  have "projr ?c4 ''indicated_power'' = Some (288 / 25 * pi)"
    by (simp add: calc_cases indicated_power_default brake_power_default fuel_power_default)
  with p have "projr ?c2 ''indicated_power'' = Some (2 * (288 / 25 * pi))"
    by simp
  with calc_two_stroke_default_returns calc_default_returns show ?thesis
    by simp
qed


subsection \<open>Rounding to binary64\<close>
































subsection \<open>The claim about the swept volume\<close>




section \<open>Properties of the chart data\<close>

lemma length_linspace: "length (linspace a b k) = k"
  by (simp add: linspace_def)

lemma nth_linspace:
  "i < k \<Longrightarrow> linspace a b k ! i = a + real i * ((b - a) / real (k - 1))"
  by (simp add: linspace_def)

lemma length_cr_range: "length cr_range = 50"
  by (simp add: cr_range_def length_linspace)

lemma nth_cr_range: "i < 50 \<Longrightarrow> cr_range ! i = 6 + real i * (14 / 49)"
  by (simp add: cr_range_def nth_linspace)

lemma cr_range_increasing:
  assumes "i < j" "j < 50"
  shows "cr_range ! i < cr_range ! j"
  using assms by (simp add: nth_cr_range)

lemma cr_range_positive: "i < 50 \<Longrightarrow> 0 < cr_range ! i"
proof -
  assume "i < 50"
  then have "cr_range ! i = 6 + real i * (14 / 49)"
    by (rule nth_cr_range)
  moreover have "0 \<le> real i * (14 / 49)"
    by simp
  ultimately show ?thesis
    by linarith
qed

lemma otto_increasing:
  fixes r1 r2 a c :: real
  assumes "0 < r1" "r1 < r2" "0 < a" "0 < c"
  shows "(1 - (1 / (r1 powr a))) * c < (1 - (1 / (r2 powr a))) * c"
proof -
  have "r1 powr a < r2 powr a"
    using assms by (simp add: powr_less_mono2)
  moreover have "0 < r1 powr a"
    using assms by simp
  ultimately have "1 / (r2 powr a) < 1 / (r1 powr a)"
    by (simp add: frac_less2)
  then have "1 - 1 / (r1 powr a) < 1 - 1 / (r2 powr a)"
    by simp
  with \<open>0 < c\<close> show ?thesis
    by (simp only: mult_strict_right_mono)
qed

lemma length_theoretical_efficiency: "length (theoretical_efficiency fuel_type) = 50"
  by (simp add: theoretical_efficiency_def length_cr_range)

lemma nth_theoretical_efficiency:
  assumes "i < 50"
  shows "theoretical_efficiency fuel_type ! i =
     (if fuel_type = ''Petrol''
      then (1 - (1 / ((cr_range ! i) powr (1.4 - 1)))) * 100
      else (1 - (1 / ((cr_range ! i) powr (1.35 - 1)))) * 100 * 0.9)"
  using assms by (simp add: theoretical_efficiency_def gamma_def length_cr_range)

lemma theoretical_efficiency_increasing:
  assumes "i < j" "j < 50"
  shows "theoretical_efficiency fuel_type ! i < theoretical_efficiency fuel_type ! j"
proof -
  from assms have i: "i < 50"
    by simp
  have pos: "0 < cr_range ! i"
    using i by (rule cr_range_positive)
  have lt: "cr_range ! i < cr_range ! j"
    using assms by (rule cr_range_increasing)
  show ?thesis
  proof (cases "fuel_type = ''Petrol''")
    case True
    have "(1 - (1 / ((cr_range ! i) powr (2 / 5)))) * 100
        < (1 - (1 / ((cr_range ! j) powr (2 / 5)))) * 100"
      using pos lt by (rule otto_increasing) simp_all
    with True i assms(2) show ?thesis
      by (simp add: nth_theoretical_efficiency)
  next
    case False
    have "(1 - (1 / ((cr_range ! i) powr (7 / 20)))) * 90
        < (1 - (1 / ((cr_range ! j) powr (7 / 20)))) * 90"
      using pos lt by (rule otto_increasing) simp_all
    with False i assms(2) show ?thesis
      by (simp add: nth_theoretical_efficiency)
  qed
qed

lemma length_practical_efficiency: "length (practical_efficiency fuel_type) = 50"
  by (simp add: practical_efficiency_def length_theoretical_efficiency)

lemma nth_practical_efficiency:
  "i < 50 \<Longrightarrow>
     practical_efficiency fuel_type ! i = 0.6 * theoretical_efficiency fuel_type ! i"
  by (simp add: practical_efficiency_def length_theoretical_efficiency)


text \<open>
  C8. The efficiency chart has 50 samples of the compression ratio, evenly spaced from 6 to
  20. On each sample \<open>r\<close> the theoretical efficiency is \<open>(1 - 1 / r powr (gamma - 1)) * 100\<close>
  with \<open>gamma = 1.4\<close> for Petrol and \<open>gamma = 1.35\<close>, times 0.9, for any other fuel type
  (Diesel); the practical efficiency is 0.6 times the theoretical one, sample by sample; and
  both series, like the samples, are strictly increasing, whatever the fuel type.
\<close>

theorem efficiency_curve:
  "length cr_range = 50
   \<and> length (theoretical_efficiency fuel_type) = 50
   \<and> length (practical_efficiency fuel_type) = 50
   \<and> cr_range ! 0 = 6 \<and> cr_range ! 49 = 20
   \<and> (i < 50 \<longrightarrow>
        cr_range ! i = 6 + real i * (14 / 49)
        \<and> theoretical_efficiency ''Petrol'' ! i
            = (1 - 1 / ((cr_range ! i) powr (1.4 - 1))) * 100
        \<and> (fuel_type \<noteq> ''Petrol'' \<longrightarrow>
             theoretical_efficiency fuel_type ! i
               = (1 - 1 / ((cr_range ! i) powr (1.35 - 1))) * 100 * 0.9)
        \<and> practical_efficiency fuel_type ! i = 0.6 * theoretical_efficiency fuel_type ! i)
   \<and> (i < j \<and> j < 50 \<longrightarrow>
        cr_range ! i < cr_range ! j
        \<and> theoretical_efficiency fuel_type ! i < theoretical_efficiency fuel_type ! j
        \<and> practical_efficiency fuel_type ! i < practical_efficiency fuel_type ! j)"
proof (intro conjI impI)
  show "length cr_range = 50"
    by (rule length_cr_range)
  show "length (theoretical_efficiency fuel_type) = 50"
    by (rule length_theoretical_efficiency)
  show "length (practical_efficiency fuel_type) = 50"
    by (rule length_practical_efficiency)
  show "cr_range ! 0 = 6" "cr_range ! 49 = 20"
    by (simp_all add: nth_cr_range)
next
  assume "i < 50"
  then show "cr_range ! i = 6 + real i * (14 / 49)"
    by (rule nth_cr_range)
next
  assume "i < 50"
  then show "theoretical_efficiency ''Petrol'' ! i
      = (1 - 1 / ((cr_range ! i) powr (1.4 - 1))) * 100"
    by (simp add: nth_theoretical_efficiency)
next
  assume "i < 50" "fuel_type \<noteq> ''Petrol''"
  then show "theoretical_efficiency fuel_type ! i
      = (1 - 1 / ((cr_range ! i) powr (1.35 - 1))) * 100 * 0.9"
    by (simp add: nth_theoretical_efficiency)
next
  assume "i < 50"
  then show "practical_efficiency fuel_type ! i = 0.6 * theoretical_efficiency fuel_type ! i"
    by (rule nth_practical_efficiency)
next
  assume "i < j \<and> j < 50"
  then show "cr_range ! i < cr_range ! j"
    by (simp add: cr_range_increasing)
next
  assume "i < j \<and> j < 50"
  then show "theoretical_efficiency fuel_type ! i < theoretical_efficiency fuel_type ! j"
    by (simp add: theoretical_efficiency_increasing)
next
  assume ij: "i < j \<and> j < 50"
  then have "theoretical_efficiency fuel_type ! i < theoretical_efficiency fuel_type ! j"
    by (simp add: theoretical_efficiency_increasing)
  with ij show "practical_efficiency fuel_type ! i < practical_efficiency fuel_type ! j"
    by (simp add: nth_practical_efficiency)
qed

theorem efficiency_curve_witness:
  "(0::nat) < 49 \<and> (49::nat) < 50 \<and> ''Diesel'' \<noteq> ''Petrol''
   \<and> cr_range ! 0 = 6 \<and> cr_range ! 49 = 20
   \<and> theoretical_efficiency ''Petrol'' ! 0 = (1 - 1 / (6 powr (2 / 5))) * 100
   \<and> theoretical_efficiency ''Diesel'' ! 0 = (1 - 1 / (6 powr (7 / 20))) * 100 * (9 / 10)
   \<and> practical_efficiency ''Diesel'' ! 0 = 0.6 * theoretical_efficiency ''Diesel'' ! 0
   \<and> theoretical_efficiency ''Diesel'' ! 0 < theoretical_efficiency ''Diesel'' ! 49
   \<and> practical_efficiency ''Diesel'' ! 0 < practical_efficiency ''Diesel'' ! 49"
  using efficiency_curve [of "''Diesel''" 0 49]
  by simp

lemma torque_loop_eq: "torque_loop max_torque rs acc = acc @ map (torque_sample max_torque) rs"
  by (induction rs arbitrary: acc) simp_all

lemma torque_curve_eq: "torque_curve max_torque = map (torque_sample max_torque) rpm_range"
  by (simp add: torque_curve_def torque_loop_eq)

lemma length_rpm_range: "length rpm_range = 50"
  by (simp add: rpm_range_def length_linspace)

lemma nth_rpm_range: "i < 50 \<Longrightarrow> rpm_range ! i = 1000 + real i * (5000 / 49)"
  by (simp add: rpm_range_def nth_linspace)

lemma nth_torque_curve:
  "i < 50 \<Longrightarrow> torque_curve max_torque ! i = torque_sample max_torque (rpm_range ! i)"
  by (simp add: torque_curve_eq length_rpm_range)

lemma nth_power_curve:
  "i < 50 \<Longrightarrow>
     power_curve max_torque ! i
       = (2 * pi * (rpm_range ! i) * (torque_curve max_torque ! i)) / 60000"
  by (simp add: power_curve_def torque_curve_eq length_rpm_range)

lemma torque_sample_unfold:
  "torque_sample max_torque r =
     (if r \<le> 3000 then max_torque * (r / 3000)
      else max_torque * exp (- 0.0005 * (r - 3000)))"
  by (simp add: torque_sample_def peak_rpm_def Let_def)

lemma torque_decays:
  assumes "0 < max_torque"
  shows "torque_sample max_torque 6000 < torque_sample max_torque 3000"
proof -
  have "exp (- (3 / 2) :: real) < 1"
    by simp
  with assms have "max_torque * exp (- (3 / 2)) < max_torque * 1"
    by (simp only: mult_strict_left_mono)
  then show ?thesis
    by (simp add: torque_sample_unfold)
qed

text \<open>
  C9. The power chart has 50 samples of the rpm, evenly spaced from 1000 to 6000. The torque
  drawn at \<open>r\<close> is \<open>peak_torque * (r / 3000)\<close> up to \<open>r = 3000\<close> and
  \<open>peak_torque * exp (-0.0005 * (r - 3000))\<close> beyond, so it is \<open>peak_torque\<close> at 3000 and,
  for a positive peak torque (the torque input is at least 10), smaller at 6000 than at 3000.
  Every power sample is \<open>(2 * pi * r * torque) / 60000\<close>, the brake power at that rpm and
  torque.
\<close>

theorem power_torque_curve:
  "torque_sample peak_torque r =
     (if r \<le> 3000 then peak_torque * (r / 3000)
      else peak_torque * exp (- 0.0005 * (r - 3000)))
   \<and> torque_sample peak_torque 3000 = peak_torque
   \<and> (0 < peak_torque \<longrightarrow> torque_sample peak_torque 6000 < torque_sample peak_torque 3000)
   \<and> length rpm_range = 50
   \<and> length (torque_curve peak_torque) = 50
   \<and> length (power_curve peak_torque) = 50
   \<and> rpm_range ! 0 = 1000 \<and> rpm_range ! 49 = 6000
   \<and> (i < 50 \<longrightarrow>
        rpm_range ! i = 1000 + real i * (5000 / 49)
        \<and> torque_curve peak_torque ! i = torque_sample peak_torque (rpm_range ! i)
        \<and> power_curve peak_torque ! i
            = (2 * pi * (rpm_range ! i) * torque_sample peak_torque (rpm_range ! i)) / 60000
        \<and> power_curve peak_torque ! i
            = brake_power (rpm_range ! i) (torque_curve peak_torque ! i))"
proof (intro conjI impI)
  show "torque_sample peak_torque r =
     (if r \<le> 3000 then peak_torque * (r / 3000)
      else peak_torque * exp (- 0.0005 * (r - 3000)))"
    by (rule torque_sample_unfold)
  show "torque_sample peak_torque 3000 = peak_torque"
    by (simp add: torque_sample_unfold)
  show "length rpm_range = 50"
    by (rule length_rpm_range)
  show "length (torque_curve peak_torque) = 50"
    by (simp add: torque_curve_eq length_rpm_range)
  show "length (power_curve peak_torque) = 50"
    by (simp add: power_curve_def torque_curve_eq length_rpm_range)
  show "rpm_range ! 0 = 1000" "rpm_range ! 49 = 6000"
    by (simp_all add: nth_rpm_range)
next
  assume "0 < peak_torque"
  then show "torque_sample peak_torque 6000 < torque_sample peak_torque 3000"
    by (rule torque_decays)
next
  assume "i < 50"
  then show "rpm_range ! i = 1000 + real i * (5000 / 49)"
    by (rule nth_rpm_range)
next
  assume "i < 50"
  then show "torque_curve peak_torque ! i = torque_sample peak_torque (rpm_range ! i)"
    by (rule nth_torque_curve)
next
  assume "i < 50"
  then show "power_curve peak_torque ! i
      = (2 * pi * (rpm_range ! i) * torque_sample peak_torque (rpm_range ! i)) / 60000"
    by (simp add: nth_power_curve nth_torque_curve)
next
  assume "i < 50"
  then show "power_curve peak_torque ! i
      = brake_power (rpm_range ! i) (torque_curve peak_torque ! i)"
    by (simp add: nth_power_curve brake_power_def)
qed

theorem power_torque_curve_witness:
  "(0::real) < 150 \<and> (49::nat) < 50
   \<and> torque_sample 150 3000 = 150
   \<and> torque_sample 150 6000 < torque_sample 150 3000
   \<and> rpm_range ! 49 = 6000
   \<and> torque_curve 150 ! 49 = 150 * exp (- (3 / 2))
   \<and> power_curve 150 ! 49 = brake_power 6000 (150 * exp (- (3 / 2)))"
  using power_torque_curve [of 150 6000 49]
  by simp

end
